theory Spec2Isabelle
  imports Complex_Main
begin

section \<open>Process configuration and the Supabase client (services/supabase.js)\<close>

text \<open>
  The server reads its configuration from \<^verbatim>\<open>process.env\<close>. A variable is either
  unset (\<open>None\<close>) or a string; JavaScript treats the unset variable and the empty
  string as falsy.
\<close>

record env =
  SUPABASE_URL :: "string option"
  SUPABASE_SERVICE_ROLE_KEY :: "string option"
  GEMINI_API_KEY :: "string option"
  MAPBOX_TOKEN :: "string option"
  TWITTER_BEARER :: "string option"

definition truthy :: "string option \<Rightarrow> bool" where
  "truthy s = (case s of None \<Rightarrow> False | Some t \<Rightarrow> t \<noteq> [])"

text \<open>
  \<^verbatim>\<open>initializeSupabase\<close> (lines 11-14) asks for the URL and the service-role key,
  both present and neither a placeholder.
\<close>

definition hasValidCredentials_init :: "env \<Rightarrow> bool" where
  "hasValidCredentials_init e =
     (truthy (SUPABASE_URL e) \<and> truthy (SUPABASE_SERVICE_ROLE_KEY e) \<and>
      SUPABASE_URL e \<noteq> Some ''your_supabase_url_here'' \<and>
      SUPABASE_SERVICE_ROLE_KEY e \<noteq> Some ''your_supabase_service_role_key_here'')"

text \<open>
  \<^verbatim>\<open>getOrSetCache\<close> (lines 99-100), \<^verbatim>\<open>findNearbyResources\<close> and
  \<^verbatim>\<open>cleanExpiredCache\<close> (lines 158-159) repeat the test on the URL alone.
\<close>

definition hasValidCredentials :: "env \<Rightarrow> bool" where
  "hasValidCredentials e =
     (truthy (SUPABASE_URL e) \<and> SUPABASE_URL e \<noteq> Some ''your_supabase_url_here'')"

text \<open>A thrown JavaScript value: an \<^verbatim>\<open>Error\<close> or a \<^verbatim>\<open>TypeError\<close> with its message.\<close>

datatype js_error = Error string | TypeError string

text \<open>
  The two clients a caller can hold: the object of \<^verbatim>\<open>createMockSupabaseClient\<close>
  and the one \<^verbatim>\<open>createClient\<close> returns, which talks to the remote database.
\<close>

datatype supabase_client = MockClient | RealClient

text \<open>
  What the code calls, in order. The list is a record of the calls made on the client
  and of the invocations of the fetcher; nothing reads it.
\<close>

datatype call = CacheSelect string | CacheUpsert string | CacheDelete | Fetcher

text \<open>
  The state the cache functions run in:
  \<^item> \<open>supabase_set\<close>: whether the module variable \<^verbatim>\<open>supabase\<close> holds the
    created client (it starts as \<^verbatim>\<open>null\<close>; the mock client is never stored);
  \<^item> \<open>cache_table\<close>: the rows of the remote table \<^verbatim>\<open>cache\<close>, whose primary key is
    \<^verbatim>\<open>key\<close>: each key has at most one row (value, expires_at);
    instants are milliseconds since the epoch;
  \<^item> \<open>faults\<close>: for each coming request to the remote database, whether it fails
    (the client then answers with \<^verbatim>\<open>{ data: null, error }\<close>); past the end of the list
    every request succeeds;
  \<^item> \<open>clock\<close>: what \<^verbatim>\<open>Date.now()\<close> reads;
  \<^item> \<open>calls\<close>: the record of calls;
  \<^item> \<open>ext\<close>: whatever the fetcher depends on and changes.
\<close>

record ('v, 'x) world =
  supabase_set :: bool
  cache_table :: "string \<rightharpoonup> ('v \<times> int)"
  faults :: "bool list"
  clock :: int
  calls :: "call list"
  ext :: 'x

definition initializeSupabase ::
  "env \<Rightarrow> ('v, 'x) world \<Rightarrow> supabase_client \<times> ('v, 'x) world" where
  "initializeSupabase e w =
     (if \<not> supabase_set w then
        (if \<not> hasValidCredentials_init e then (MockClient, w)
         else (RealClient, w\<lparr>supabase_set := True\<rparr>))
      else (RealClient, w))"

definition next_fault :: "('v, 'x) world \<Rightarrow> bool" where
  "next_fault w = (case faults w of [] \<Rightarrow> False | f # fs \<Rightarrow> f)"

definition logged :: "call \<Rightarrow> ('v, 'x) world \<Rightarrow> ('v, 'x) world" where
  "logged c w = w\<lparr>calls := calls w @ [c]\<rparr>"

definition request_sent :: "call \<Rightarrow> ('v, 'x) world \<Rightarrow> ('v, 'x) world" where
  "request_sent c w = logged c (w\<lparr>faults := drop 1 (faults w)\<rparr>)"

text \<open>
  \<^verbatim>\<open>client.from('cache').select('value, expires_at').eq('key', key).single()\<close>.
  The answer is \<^verbatim>\<open>{ data, error }\<close>: the row and no error, or no row and an error
  (\<^verbatim>\<open>.single()\<close> reports "no row" as error \<^verbatim>\<open>PGRST116\<close>). The mock client answers
  \<^verbatim>\<open>{ data: null, error: null }\<close> (line 42).
\<close>

definition select_single ::
  "supabase_client \<Rightarrow> string \<Rightarrow> ('v, 'x) world \<Rightarrow>
     (('v \<times> int) option \<times> string option) \<times> ('v, 'x) world" where
  "select_single c key w =
     (case c of
        MockClient \<Rightarrow> ((None, None), logged (CacheSelect key) w)
      | RealClient \<Rightarrow>
          (if next_fault w then ((None, Some ''fetch failed''), request_sent (CacheSelect key) w)
           else (case cache_table w key of
                   None \<Rightarrow> ((None, Some ''PGRST116''), request_sent (CacheSelect key) w)
                 | Some row \<Rightarrow> ((Some row, None), request_sent (CacheSelect key) w))))"

text \<open>
  \<^verbatim>\<open>client.from('cache').upsert({ key, value, expires_at })\<close>. The object the mock
  client's \<^verbatim>\<open>from\<close> returns has the one property \<^verbatim>\<open>select\<close> (lines 39-90: \<^verbatim>\<open>upsert\<close>,
  \<^verbatim>\<open>delete\<close> and \<^verbatim>\<open>lt\<close> are properties of what \<^verbatim>\<open>select()\<close> returns), so calling
  \<^verbatim>\<open>upsert\<close> on it throws a TypeError. The real client answers \<^verbatim>\<open>{ error }\<close>.
\<close>

definition upsert ::
  "supabase_client \<Rightarrow> string \<Rightarrow> 'v \<Rightarrow> int \<Rightarrow> ('v, 'x) world \<Rightarrow>
     (js_error + string option) \<times> ('v, 'x) world" where
  "upsert c key v expires_at w =
     (case c of
        MockClient \<Rightarrow> (Inl (TypeError ''supabaseClient.from(...).upsert is not a function''), w)
      | RealClient \<Rightarrow>
          (if next_fault w then (Inr (Some ''fetch failed''), request_sent (CacheUpsert key) w)
           else (Inr None,
                 request_sent (CacheUpsert key)
                   (w\<lparr>cache_table := (cache_table w)(key \<mapsto> (v, expires_at))\<rparr>))))"

text \<open>\<^verbatim>\<open>client.from('cache').delete().lt('expires_at', now)\<close>.\<close>

definition purge :: "int \<Rightarrow> (string \<rightharpoonup> ('v \<times> int)) \<Rightarrow> (string \<rightharpoonup> ('v \<times> int))" where
  "purge now t =
     (\<lambda>k. case t k of None \<Rightarrow> None
                     | Some row \<Rightarrow> if snd row < now then None else Some row)"

definition delete_lt ::
  "supabase_client \<Rightarrow> int \<Rightarrow> ('v, 'x) world \<Rightarrow>
     (js_error + string option) \<times> ('v, 'x) world" where
  "delete_lt c now w =
     (case c of
        MockClient \<Rightarrow> (Inl (TypeError ''supabaseClient.from(...).delete is not a function''), w)
      | RealClient \<Rightarrow>
          (if next_fault w then (Inr (Some ''fetch failed''), request_sent CacheDelete w)
           else (Inr None,
                 request_sent CacheDelete (w\<lparr>cache_table := purge now (cache_table w)\<rparr>))))"

section \<open>The cache-through wrapper\<close>

text \<open>
  A fetcher is an asynchronous function of no argument: from the state it depends on
  it throws or returns a value, takes some milliseconds, and leaves a new state.
\<close>

type_synonym ('v, 'x) fetcher = "'x \<Rightarrow> (js_error + 'v) \<times> nat \<times> 'x"

definition await_fetcher ::
  "('v, 'x) fetcher \<Rightarrow> ('v, 'x) world \<Rightarrow> (js_error + 'v) \<times> ('v, 'x) world" where
  "await_fetcher fetcher w =
     (case fetcher (ext w) of
        (r, d, x) \<Rightarrow> (r, logged Fetcher (w\<lparr>clock := clock w + int d, ext := x\<rparr>)))"

text \<open>
  \<^verbatim>\<open>getOrSetCache(key, fetcher, ttlHours = 1)\<close>, lines 95-126. Of the answer of
  \<^verbatim>\<open>select\<close> the code reads \<^verbatim>\<open>data\<close> alone, and the answer of \<^verbatim>\<open>upsert\<close> is dropped.
  \<open>ttlHours\<close> is a whole number of hours (every caller leaves the default, 1).
\<close>

definition getOrSetCache ::
  "env \<Rightarrow> string \<Rightarrow> ('v, 'x) fetcher \<Rightarrow> int \<Rightarrow> ('v, 'x) world \<Rightarrow>
     (js_error + 'v) \<times> ('v, 'x) world" where
  "getOrSetCache e key fetcher ttlHours w0 =
     (case initializeSupabase e w0 of (supabaseClient, w1) \<Rightarrow>
      if \<not> hasValidCredentials e then await_fetcher fetcher w1
      else
        (case select_single supabaseClient key w1 of ((data, err), w2) \<Rightarrow>
         (case (case data of None \<Rightarrow> None
                           | Some row \<Rightarrow> if snd row > clock w2 then Some (fst row) else None) of
            Some v \<Rightarrow> (Inr v, w2)
          | None \<Rightarrow>
             (case await_fetcher fetcher w2 of
                (Inl thrown, w3) \<Rightarrow> (Inl thrown, w3)
              | (Inr fresh, w3) \<Rightarrow>
                 (case upsert supabaseClient key fresh
                         (clock w3 + ttlHours * 60 * 60 * 1000) w3 of
                    (Inl thrown, w4) \<Rightarrow> (Inl thrown, w4)
                  | (Inr answer, w4) \<Rightarrow> (Inr fresh, w4))))))"

text \<open>
  \<^verbatim>\<open>cleanExpiredCache()\<close>, lines 154-173. An error the database answers is printed
  with \<^verbatim>\<open>console.error\<close> and the function returns normally.
\<close>

definition cleanExpiredCache ::
  "env \<Rightarrow> ('v, 'x) world \<Rightarrow> (js_error + unit) \<times> ('v, 'x) world" where
  "cleanExpiredCache e w0 =
     (case initializeSupabase e w0 of (supabaseClient, w1) \<Rightarrow>
      if \<not> hasValidCredentials e then (Inr (), w1)
      else
        (case delete_lt supabaseClient (clock w1) w1 of
           (Inl thrown, w2) \<Rightarrow> (Inl thrown, w2)
         | (Inr answer, w2) \<Rightarrow> (Inr (), w2)))"

text \<open>The calls made between two states.\<close>

definition new_calls :: "('v, 'x) world \<Rightarrow> ('v, 'x) world \<Rightarrow> call list" where
  "new_calls w w' = drop (length (calls w)) (calls w')"

text \<open>No row of the key that is still valid: what the code treats as a miss.\<close>

definition stale :: "string \<Rightarrow> ('v, 'x) world \<Rightarrow> bool" where
  "stale key w = (case cache_table w key of None \<Rightarrow> True | Some row \<Rightarrow> snd row \<le> clock w)"

section \<open>Strings\<close>

text \<open>
  \<^verbatim>\<open>String(n)\<close> for an integer, as a template literal prints it, and
  \<^verbatim>\<open>String.prototype.trim\<close> on the ASCII white space (the no-break space and the other
  Unicode spaces that \<^verbatim>\<open>trim\<close> also removes are outside the byte strings used here).
\<close>

fun digits :: "nat \<Rightarrow> string" where
  "digits n = (if n < 10 then [''0123456789'' ! n]
               else digits (n div 10) @ [''0123456789'' ! (n mod 10)])"

declare digits.simps [simp del]

definition show_int :: "int \<Rightarrow> string" where
  "show_int i = (if i < 0 then ''-'' @ digits (nat (- i)) else digits (nat i))"

definition is_space :: "char \<Rightarrow> bool" where
  "is_space c = (c \<in> set [CHR 0x20, CHR 0x09, CHR 0x0A, CHR 0x0B, CHR 0x0C, CHR 0x0D])"

definition trim :: "string \<Rightarrow> string" where
  "trim s = rev (dropWhile is_space (rev (dropWhile is_space s)))"

text \<open>\<^verbatim>\<open>a || b\<close> on a string that may be undefined: the empty string is falsy too.\<close>

definition or_else :: "string option \<Rightarrow> string \<Rightarrow> string" where
  "or_else a b = (case a of None \<Rightarrow> b | Some s \<Rightarrow> if s = [] then b else s)"

section \<open>External adapters (routes/geocode.js, routes/socialMedia.js)\<close>

text \<open>
  What a request to a third party gives back: \<open>Inl msg\<close> when \<^verbatim>\<open>axios\<close> rejects (no
  connection, a timeout, a status that is not 2xx), \<open>Inr None\<close> when a response came
  whose body lacks what the code reads from it (the property access throws a
  TypeError), \<open>Inr (Some a)\<close> when the body holds \<open>a\<close>. The network is a function from
  the request to what comes back.
\<close>

type_synonym 'a reply = "string + 'a option"

fun message :: "js_error \<Rightarrow> string" where
  "message (Error m) = m"
| "message (TypeError m) = m"

subsection \<open>Geocoding\<close>

record coordinates =
  lat :: real
  lon :: real
  confidence :: real

record geocode_result = coordinates +
  location_name :: string

text \<open>A Mapbox feature: \<^verbatim>\<open>center\<close> is \<^verbatim>\<open>[lon, lat]\<close>; \<^verbatim>\<open>relevance\<close> may be missing.\<close>

record feature =
  center :: "real \<times> real"
  relevance :: "real option"

text \<open>\<^verbatim>\<open>x || d\<close> on a number that may be undefined: 0 is falsy.\<close>

definition or_number :: "real option \<Rightarrow> real \<Rightarrow> real" where
  "or_number x d = (case x of None \<Rightarrow> d | Some v \<Rightarrow> if v = 0 then d else v)"

definition is_quote :: "char \<Rightarrow> bool" where
  "is_quote c = (c = CHR 0x22 \<or> c = CHR 0x27)"

text \<open>\<^verbatim>\<open>s.replace(/^["']|["']$/g, '')\<close>: one quote off the front, one off the end.\<close>

definition strip_quotes :: "string \<Rightarrow> string" where
  "strip_quotes s =
     (let s1 = (case s of [] \<Rightarrow> [] | c # cs \<Rightarrow> if is_quote c then cs else s) in
      case rev s1 of [] \<Rightarrow> [] | c # cs \<Rightarrow> if is_quote c then rev cs else s1)"

text \<open>
  \<^verbatim>\<open>extractLocationWithGemini(text, apiKey)\<close>, lines 68-98: the request is the key and
  the text; the body holds \<^verbatim>\<open>candidates[0].content.parts[0].text\<close>. Every failure is
  logged and thrown again under one message.
\<close>

definition extractLocationWithGemini ::
  "(string \<Rightarrow> string \<Rightarrow> string reply) \<Rightarrow> string \<Rightarrow> string \<Rightarrow> js_error + string" where
  "extractLocationWithGemini gemini text apiKey =
     (case gemini apiKey text of
        Inr (Some t) \<Rightarrow> Inr (strip_quotes (trim t))
      | _ \<Rightarrow> Inl (Error ''Failed to extract location with Gemini API''))"

text \<open>
  \<^verbatim>\<open>geocodeWithMapbox(locationName, token)\<close>, lines 100-121: the request is the token
  and the name (percent-encoded in the URL); the body holds \<^verbatim>\<open>features\<close>. No feature
  throws inside the \<^verbatim>\<open>try\<close>, so it ends under the same message as a failed request.
\<close>

definition geocodeWithMapbox ::
  "(string \<Rightarrow> string \<Rightarrow> feature list reply) \<Rightarrow> string \<Rightarrow> string \<Rightarrow> js_error + coordinates" where
  "geocodeWithMapbox mapbox locationName token =
     (case mapbox token locationName of
        Inr (Some (f # fs)) \<Rightarrow>
          Inr \<lparr>lat = snd (center f), lon = fst (center f),
               confidence = or_number (relevance f) 0.8\<rparr>
      | _ \<Rightarrow> Inl (Error ''Failed to geocode with Mapbox API''))"

definition mock_geocode :: geocode_result where
  "mock_geocode =
     \<lparr>lat = 40.7589, lon = - 73.9851, confidence = 0.5,
      location_name = ''Mock Location (API keys not configured)''\<rparr>"

text \<open>A string that may be undefined, as a template literal prints it.\<close>

definition interpolated :: "string option \<Rightarrow> string" where
  "interpolated a = (case a of None \<Rightarrow> ''undefined'' | Some s \<Rightarrow> s)"

text \<open>\<^verbatim>\<open>performGeocoding(text)\<close>, lines 33-66.\<close>

definition performGeocoding ::
  "env \<Rightarrow> (string \<Rightarrow> string \<Rightarrow> string reply) \<Rightarrow> (string \<Rightarrow> string \<Rightarrow> feature list reply) \<Rightarrow>
     string \<Rightarrow> js_error + geocode_result" where
  "performGeocoding e gemini mapbox text =
     (if \<not> truthy (GEMINI_API_KEY e) \<or> \<not> truthy (MAPBOX_TOKEN e) then Inr mock_geocode
      else
        (case extractLocationWithGemini gemini text (interpolated (GEMINI_API_KEY e)) of
           Inl error \<Rightarrow> Inl (Error (''Geocoding failed: '' @ message error))
         | Inr locationName \<Rightarrow>
            (case geocodeWithMapbox mapbox locationName (interpolated (MAPBOX_TOKEN e)) of
               Inl error \<Rightarrow> Inl (Error (''Geocoding failed: '' @ message error))
             | Inr coordinates \<Rightarrow>
                 Inr \<lparr>lat = lat coordinates, lon = lon coordinates,
                      confidence = or_number (Some (confidence coordinates)) 0.8,
                      location_name = locationName\<rparr>)))"

subsection \<open>Social media posts\<close>

text \<open>
  A timestamp is the ISO-8601 text \<^verbatim>\<open>toISOString()\<close> prints for an instant
  (\<open>ISO t\<close>), or text taken as it came from a third party.
\<close>

datatype timestamp = ISO int | Verbatim string

record engagement =
  likes :: nat
  retweets :: nat
  replies :: nat

record post =
  post_id :: string
  platform :: "string option"
  content :: string
  author :: string
  author_verified :: bool
  timestamp :: "timestamp option"
  engagement :: engagement
  location :: "string option"
  verified :: bool

text \<open>\<^verbatim>\<open>generateMockSocialMediaPosts(disasterId, platform)\<close>, lines 122-172, at \<open>now\<close>.\<close>

definition generateMockSocialMediaPosts :: "string option \<Rightarrow> string option \<Rightarrow> int \<Rightarrow> post list" where
  "generateMockSocialMediaPosts disasterId platform' now =
     [\<lparr>post_id = ''post_'' @ show_int now @ ''_1'', platform = platform',
       content = ''Heavy flooding reported in the downtown area. Emergency services are responding.'',
       author = ''@local_reporter'', author_verified = True,
       timestamp = Some (ISO (now - 300000)),
       engagement = \<lparr>likes = 45, retweets = 12, replies = 8\<rparr>,
       location = Some ''Downtown Area'', verified = True\<rparr>,
      \<lparr>post_id = ''post_'' @ show_int now @ ''_2'', platform = platform',
       content = ''Just saw emergency vehicles heading towards the affected area. Stay safe everyone!'',
       author = ''@concerned_citizen'', author_verified = False,
       timestamp = Some (ISO (now - 600000)),
       engagement = \<lparr>likes = 23, retweets = 5, replies = 3\<rparr>,
       location = Some ''Near Main Street'', verified = False\<rparr>,
      \<lparr>post_id = ''post_'' @ show_int now @ ''_3'', platform = platform',
       content = ''Official evacuation order issued for residents in flood-prone areas. Please follow instructions.'',
       author = ''@city_emergency'', author_verified = True,
       timestamp = Some (ISO (now - 900000)),
       engagement = \<lparr>likes = 156, retweets = 89, replies = 23\<rparr>,
       location = Some ''City Hall'', verified = True\<rparr>]"

text \<open>A tweet of the search response: \<^verbatim>\<open>created_at\<close> is there only when asked for.\<close>

record tweet =
  tweet_id :: string
  tweet_text :: string
  created_at :: "string option"

text \<open>\<^verbatim>\<open>Math.floor(Math.random() * n)\<close> for a draw \<open>r\<close>.\<close>

definition floor_scaled :: "real \<Rightarrow> nat \<Rightarrow> nat" where
  "floor_scaled r n = nat \<lfloor>r * real n\<rfloor>"

text \<open>
  \<^verbatim>\<open>fetchTwitterPosts(query)\<close>, lines 174-206. The request is the bearer token and the
  query; the body holds \<^verbatim>\<open>data\<close>, the tweets. \<open>random\<close> gives the draws of
  \<^verbatim>\<open>Math.random()\<close> in order, three a tweet.
\<close>

definition fetchTwitterPosts ::
  "env \<Rightarrow> (string \<Rightarrow> string \<Rightarrow> tweet list reply) \<Rightarrow> (nat \<Rightarrow> real) \<Rightarrow> int \<Rightarrow> string \<Rightarrow> post list" where
  "fetchTwitterPosts e twitter random now query =
     (case twitter (interpolated (TWITTER_BEARER e)) query of
        Inr (Some tweets) \<Rightarrow>
          map (\<lambda>(i, tweet).
                \<lparr>post_id = tweet_id tweet, platform = Some ''twitter'',
                 content = tweet_text tweet, author = ''@user_'' @ tweet_id tweet,
                 author_verified = False,
                 timestamp = map_option Verbatim (created_at tweet),
                 engagement = \<lparr>likes = floor_scaled (random (3 * i)) 100,
                               retweets = floor_scaled (random (3 * i + 1)) 50,
                               replies = floor_scaled (random (3 * i + 2)) 20\<rparr>,
                 location = None, verified = False\<rparr>)
              (enumerate 0 tweets)
      | _ \<Rightarrow> generateMockSocialMediaPosts None (Some ''twitter'') now)"

subsection \<open>Official updates\<close>

text \<open>
  The value of \<^verbatim>\<open>officialSources[source] || officialSources.fema\<close>: a URL, or a
  member \<^verbatim>\<open>officialSources\<close> inherits from \<^verbatim>\<open>Object.prototype\<close> (for a source such as
  \<^verbatim>\<open>constructor\<close>), which is truthy and no string.
\<close>

datatype js_url = Url string | Inherited string

record official_update =
  u_id :: string
  u_source :: string
  u_title :: string
  u_content :: string
  u_timestamp :: timestamp
  u_priority :: string
  u_url :: js_url

text \<open>\<^verbatim>\<open>generateMockOfficialUpdates(source)\<close>, lines 263-293, at \<open>now\<close>.\<close>

definition generateMockOfficialUpdates :: "string option \<Rightarrow> int \<Rightarrow> official_update list" where
  "generateMockOfficialUpdates source now =
     [\<lparr>u_id = ''update_'' @ show_int now @ ''_1'',
       u_source = or_else source ''City Emergency Management'',
       u_title = ''Evacuation Order Issued'',
       u_content = ''Residents in affected areas are ordered to evacuate immediately. Emergency shelters are open at the following locations...'',
       u_timestamp = ISO now, u_priority = ''high'', u_url = Url ''#''\<rparr>,
      \<lparr>u_id = ''update_'' @ show_int now @ ''_2'',
       u_source = or_else source ''National Weather Service'',
       u_title = ''Severe Weather Warning Extended'',
       u_content = ''The severe weather warning has been extended for the next 6 hours. Heavy rainfall and flooding expected.'',
       u_timestamp = ISO (now - 1800000), u_priority = ''high'', u_url = Url ''#''\<rparr>,
      \<lparr>u_id = ''update_'' @ show_int now @ ''_3'',
       u_source = or_else source ''Red Cross'',
       u_title = ''Emergency Response Team Deployed'',
       u_content = ''Red Cross emergency response teams have been deployed to provide assistance to affected communities.'',
       u_timestamp = ISO (now - 3600000), u_priority = ''medium'', u_url = Url ''#''\<rparr>]"

definition officialSources :: "string \<rightharpoonup> string" where
  "officialSources =
     [''fema'' \<mapsto> ''https://www.fema.gov/news-disasters'',
      ''redcross'' \<mapsto> ''https://www.redcross.org/about-us/news-and-events/news.html'',
      ''weather'' \<mapsto> ''https://www.weather.gov/news'']"

definition object_prototype_members :: "string list" where
  "object_prototype_members =
     [''constructor'', ''__proto__'', ''hasOwnProperty'', ''isPrototypeOf'',
      ''propertyIsEnumerable'', ''toLocaleString'', ''toString'', ''valueOf'',
      ''__defineGetter__'', ''__defineSetter__'', ''__lookupGetter__'', ''__lookupSetter__'']"

definition sourceUrl_of :: "string option \<Rightarrow> js_url" where
  "sourceUrl_of source =
     (case source of
        None \<Rightarrow> Url ''https://www.fema.gov/news-disasters''
      | Some s \<Rightarrow>
          (case officialSources s of
             Some u \<Rightarrow> Url u
           | None \<Rightarrow> if s \<in> set object_prototype_members then Inherited s
                     else Url ''https://www.fema.gov/news-disasters''))"

text \<open>
  An element the selector \<^verbatim>\<open>article, .news-item, .update\<close> matches, as the loop reads it:
  the text of its first descendant matching \<^verbatim>\<open>h1, h2, h3, .title\<close>, of the first matching
  \<^verbatim>\<open>p, .content, .description\<close> and of the first matching \<^verbatim>\<open>time, .date\<close>, each empty
  when there is no such descendant.
\<close>

record element =
  heading_text :: string
  paragraph_text :: string
  time_text :: string

text \<open>The body of the \<^verbatim>\<open>each\<close> loop, lines 232-248, for the element of index \<open>i\<close>.\<close>

definition extract_update ::
  "string option \<Rightarrow> js_url \<Rightarrow> int \<Rightarrow> nat \<times> element \<Rightarrow> official_update option" where
  "extract_update source sourceUrl now ie =
     (let title = trim (heading_text (snd ie));
          content = trim (paragraph_text (snd ie));
          timestamp = trim (time_text (snd ie)) in
      if title \<noteq> [] \<and> content \<noteq> [] then
        Some \<lparr>u_id = ''update_'' @ show_int now @ ''_'' @ digits (fst ie),
              u_source = or_else source ''official'',
              u_title = title,
              u_content = take 500 content,
              u_timestamp = (if timestamp \<noteq> [] then Verbatim timestamp else ISO now),
              u_priority = ''medium'',
              u_url = sourceUrl\<rparr>
      else None)"

definition extract_updates ::
  "string option \<Rightarrow> js_url \<Rightarrow> int \<Rightarrow> element list \<Rightarrow> official_update list" where
  "extract_updates source sourceUrl now elements =
     List.map_filter (extract_update source sourceUrl now) (enumerate 0 elements)"

text \<open>
  \<^verbatim>\<open>scrapeOfficialUpdates(source)\<close>, lines 208-261. The request is the URL; the body,
  loaded by cheerio, holds the elements the selector matches, in document order.
\<close>

definition scrapeOfficialUpdates ::
  "(js_url \<Rightarrow> element list reply) \<Rightarrow> int \<Rightarrow> string option \<Rightarrow> official_update list" where
  "scrapeOfficialUpdates page now source =
     (let sourceUrl = sourceUrl_of source in
      case page sourceUrl of
        Inr (Some elements) \<Rightarrow>
          (let updates = extract_updates source sourceUrl now elements in
           if length updates = 0 then generateMockOfficialUpdates source now
           else take 10 updates)
      | _ \<Rightarrow> generateMockOfficialUpdates source now)"

section \<open>The resources router\<close>

text \<open>
  An Express router keeps its routes in the order of registration. A request runs the
  first route of its method whose path pattern matches; a later route runs only when
  the handler before it calls \<^verbatim>\<open>next()\<close> with no argument. In this router no handler
  does: each one answers or calls \<^verbatim>\<open>next(error)\<close>, and the \<^verbatim>\<open>validate\<close> middleware
  passes on to the handler of its own route. So the first matching route is the one
  that runs.

  A pattern is a list of segments, a literal or a named parameter. Express matches a
  literal without regard to case and a parameter against one or more characters other
  than \<^verbatim>\<open>/\<close>, and allows one trailing \<^verbatim>\<open>/\<close>. The parameter is bound to the segment as
  written (percent-decoding is left out).
\<close>

datatype http_method = GET | POST | PUT | DELETE

datatype segment = Literal string | Parameter string

datatype resource_handler =
  CreateResource | ListResources | GetResource | UpdateResource | DeleteResource
  | NearbyResources | ResourceTypes | BulkCreate

definition lower :: "char \<Rightarrow> char" where
  "lower c = (let n = (of_char c :: nat) in if 65 \<le> n \<and> n \<le> 90 then char_of (n + 32) else c)"

fun split_slash :: "string \<Rightarrow> string list" where
  "split_slash [] = [[]]"
| "split_slash (c # cs) =
     (if c = CHR ''/'' then [] # split_slash cs
      else (case split_slash cs of [] \<Rightarrow> [[c]] | s # ss \<Rightarrow> (c # s) # ss))"

fun match_segments :: "segment list \<Rightarrow> string list \<Rightarrow> (string \<times> string) list option" where
  "match_segments [] [] = Some []"
| "match_segments (Literal l # ps) (s # ss) =
     (if map lower l = map lower s then match_segments ps ss else None)"
| "match_segments (Parameter n # ps) (s # ss) =
     (if s \<noteq> [] then map_option ((#) (n, s)) (match_segments ps ss) else None)"
| "match_segments _ _ = None"

definition match_path :: "segment list \<Rightarrow> string \<Rightarrow> (string \<times> string) list option" where
  "match_path pattern path =
     (case split_slash path of
        [] # segs \<Rightarrow>
          (case match_segments pattern segs of
             Some params \<Rightarrow> Some params
           | None \<Rightarrow> if segs \<noteq> [] \<and> last segs = [] then match_segments pattern (butlast segs)
                     else None)
      | _ \<Rightarrow> None)"

fun dispatch ::
  "(http_method \<times> segment list \<times> 'h) list \<Rightarrow> http_method \<Rightarrow> string \<Rightarrow>
     ('h \<times> (string \<times> string) list) option" where
  "dispatch [] m path = None"
| "dispatch ((m', pattern, h) # rest) m path =
     (if m' = m then
        (case match_path pattern path of
           Some params \<Rightarrow> Some (h, params)
         | None \<Rightarrow> dispatch rest m path)
      else dispatch rest m path)"

text \<open>The routes of the resources router, as the file registers them (lines 8-325).\<close>

definition resources_router :: "(http_method \<times> segment list \<times> resource_handler) list" where
  "resources_router =
     [(POST, [], CreateResource),
      (GET, [], ListResources),
      (GET, [Parameter ''id''], GetResource),
      (PUT, [Parameter ''id''], UpdateResource),
      (DELETE, [Parameter ''id''], DeleteResource),
      (GET, [Literal ''nearby''], NearbyResources),
      (GET, [Literal ''types''], ResourceTypes),
      (POST, [Literal ''bulk''], BulkCreate)]"

section \<open>Mock authentication and the ownership check (middleware/auth.js, routes/disasters.js)\<close>

record user =
  user_id :: string
  role :: string

definition mockUsers :: "user list" where
  "mockUsers = [\<lparr>user_id = ''u1'', role = ''admin''\<rparr>, \<lparr>user_id = ''u2'', role = ''contributor''\<rparr>]"

text \<open>\<^verbatim>\<open>xs[i]\<close>: \<^verbatim>\<open>undefined\<close> outside the array.\<close>

definition element_at :: "'a list \<Rightarrow> int \<Rightarrow> 'a option" where
  "element_at xs i = (if 0 \<le> i \<and> i < int (length xs) then Some (xs ! nat i) else None)"

text \<open>
  A request as the handlers read it: \<^verbatim>\<open>req.user\<close> (undefined until the middleware
  sets it), \<^verbatim>\<open>req.params.id\<close> and the body.
\<close>

record 'b request =
  user :: "user option"
  params_id :: string
  body :: 'b

text \<open>\<^verbatim>\<open>authMiddleware\<close>, lines 3-16, for a draw \<open>random\<close> of \<^verbatim>\<open>Math.random()\<close>.\<close>

definition authMiddleware :: "real \<Rightarrow> 'b request \<Rightarrow> 'b request" where
  "authMiddleware random req =
     req\<lparr>user := element_at mockUsers \<lfloor>random * real (length mockUsers)\<rfloor>\<rparr>"

text \<open>
  A row of \<^verbatim>\<open>disasters\<close>: its owner, the columns a client writes (title, location name,
  description, tags, location), kept as one value, and the audit trail.
\<close>

datatype 'c audit = Created string int | Updated string int 'c

record 'c disaster =
  owner_id :: string
  columns :: 'c
  audit_trail :: "'c audit list"

datatype 'c emitted = DisasterUpdated "'c disaster" | DisasterDeleted string

datatype 'c response =
  Json nat "'c disaster" | JsonError nat string | NoContent nat | Next js_error

text \<open>
  What the handlers of a disaster act on: the table, the coming failures of the
  database (as for the cache), the clock, and what was emitted on the socket.
\<close>

record 'c db =
  disasters :: "string \<rightharpoonup> 'c disaster"
  db_faults :: "bool list"
  db_clock :: int
  emits :: "'c emitted list"

definition db_fault :: "'c db \<Rightarrow> bool" where
  "db_fault d = (case db_faults d of [] \<Rightarrow> False | f # fs \<Rightarrow> f)"

definition db_sent :: "'c db \<Rightarrow> 'c db" where
  "db_sent d = d\<lparr>db_faults := drop 1 (db_faults d)\<rparr>"

text \<open>
  The ownership check of lines 147 and 224:
  \<^verbatim>\<open>existing.owner_id !== user.id && user.role !== 'admin'\<close>.
\<close>

definition forbidden :: "'c disaster \<Rightarrow> user \<Rightarrow> bool" where
  "forbidden existing u = (owner_id existing \<noteq> user_id u \<and> role u \<noteq> ''admin'')"

text \<open>
  The handler of \<^verbatim>\<open>PUT /disasters/:id\<close>, lines 126-201, after \<^verbatim>\<open>validate\<close> has passed
  the body. Logging is left out.
\<close>

definition put_disaster :: "'c request \<Rightarrow> 'c db \<Rightarrow> 'c response \<times> 'c db" where
  "put_disaster req d0 =
     (if db_fault d0 then (Next (Error ''Failed to fetch disaster: fetch failed''), db_sent d0)
      else
        (case disasters d0 (params_id req) of
           None \<Rightarrow> (JsonError 404 ''Disaster not found'', db_sent d0)
         | Some existing \<Rightarrow>
            (case user req of
               None \<Rightarrow> (Next (TypeError ''Cannot read properties of undefined''), db_sent d0)
             | Some u \<Rightarrow>
                if forbidden existing u then (JsonError 403 ''Insufficient permissions'', db_sent d0)
                else
                  (let d1 = db_sent d0;
                       auditTrail = audit_trail existing @ [Updated (user_id u) (db_clock d1) (body req)] in
                   if db_fault d1 then
                     (Next (Error ''Failed to update disaster: fetch failed''), db_sent d1)
                   else
                     (let data = existing\<lparr>columns := body req, audit_trail := auditTrail\<rparr> in
                      (Json 200 data,
                       (db_sent d1)\<lparr>disasters := (disasters d1)(params_id req \<mapsto> data),
                                     emits := emits d1 @ [DisasterUpdated data]\<rparr>))))))"

text \<open>The handler of \<^verbatim>\<open>DELETE /disasters/:id\<close>, lines 204-254.\<close>

definition delete_disaster :: "'c request \<Rightarrow> 'c db \<Rightarrow> 'c response \<times> 'c db" where
  "delete_disaster req d0 =
     (if db_fault d0 then (Next (Error ''Failed to fetch disaster: fetch failed''), db_sent d0)
      else
        (case disasters d0 (params_id req) of
           None \<Rightarrow> (JsonError 404 ''Disaster not found'', db_sent d0)
         | Some existing \<Rightarrow>
            (case user req of
               None \<Rightarrow> (Next (TypeError ''Cannot read properties of undefined''), db_sent d0)
             | Some u \<Rightarrow>
                if forbidden existing u then (JsonError 403 ''Insufficient permissions'', db_sent d0)
                else
                  (let d1 = db_sent d0 in
                   if db_fault d1 then
                     (Next (Error ''Failed to delete disaster: fetch failed''), db_sent d1)
                   else
                     (NoContent 204,
                      (db_sent d1)\<lparr>disasters := (disasters d1)(params_id req := None),
                                    emits := emits d1 @ [DisasterDeleted (params_id req)]\<rparr>)))))"

text \<open>A request that did not give the body the adapter reads.\<close>

definition failed :: "'a reply \<Rightarrow> bool" where
  "failed r = (case r of Inr (Some a) \<Rightarrow> False | _ \<Rightarrow> True)"

text \<open>A Mapbox request that failed or found no feature.\<close>

definition no_feature :: "feature list reply \<Rightarrow> bool" where
  "no_feature r = (case r of Inr (Some (f # fs)) \<Rightarrow> False | _ \<Rightarrow> True)"

section \<open>Concrete inputs\<close>

text \<open>The inputs at which the theorems below are exercised.\<close>

definition live_env :: env where
  "live_env =
     \<lparr>SUPABASE_URL = Some ''https://db.example.supabase.co'',
      SUPABASE_SERVICE_ROLE_KEY = Some ''service-role-key'',
      GEMINI_API_KEY = Some ''gemini-key'', MAPBOX_TOKEN = Some ''mapbox-token'',
      TWITTER_BEARER = Some ''bearer''\<rparr>"

text \<open>The URL is set and the service-role key is not.\<close>

definition url_only_env :: env where
  "url_only_env = live_env\<lparr>SUPABASE_SERVICE_ROLE_KEY := None\<rparr>"

text \<open>A fetcher that returns how often it has run, and takes 5 ms.\<close>

definition counting :: "(nat, nat) fetcher" where
  "counting n = (Inr n, 5, Suc n)"

definition throwing :: "(nat, nat) fetcher" where
  "throwing n = (Inl (Error ''upstream unavailable''), 5, Suc n)"

definition fresh_world :: "(nat, nat) world" where
  "fresh_world =
     \<lparr>supabase_set = False, cache_table = Map.empty, faults = [], clock = 0, calls = [],
      ext = 0\<rparr>"

definition after_first :: "(nat, nat) world" where
  "after_first = snd (getOrSetCache live_env ''geocode:abc'' counting 1 fresh_world)"

definition after_second :: "(nat, nat) world" where
  "after_second =
     snd (getOrSetCache live_env ''geocode:abc'' counting 1 (after_first\<lparr>clock := 1800000\<rparr>))"

text \<open>A table with one row that expired and one that has not, at time 100.\<close>

definition two_rows :: "(nat, nat) world" where
  "two_rows =
     fresh_world\<lparr>cache_table := [''old'' \<mapsto> (1, 50), ''new'' \<mapsto> (2, 150)], clock := 100\<rparr>"

definition down :: "string \<Rightarrow> string \<Rightarrow> 'a reply" where
  "down credential request = Inl ''connect ECONNREFUSED''"

definition page_down :: "js_url \<Rightarrow> element list reply" where
  "page_down url = Inl ''timeout of 10000ms exceeded''"

text \<open>A page whose one matched element has a heading of white space only.\<close>

definition blank_page :: "js_url \<Rightarrow> element list reply" where
  "blank_page url =
     Inr (Some [\<lparr>heading_text = ''  '', paragraph_text = ''Shelters are open.'', time_text = ''''\<rparr>])"

definition manhattan :: "string \<Rightarrow> string \<Rightarrow> string reply" where
  "manhattan credential request = Inr (Some '' Manhattan '')"

definition owned_by_u1 :: "string db" where
  "owned_by_u1 =
     \<lparr>disasters = [''d1'' \<mapsto> \<lparr>owner_id = ''u1'', columns = ''Flood'', audit_trail = [Created ''u1'' 0]\<rparr>],
      db_faults = [], db_clock = 10, emits = []\<rparr>"

definition edit_d1 :: "string request" where
  "edit_d1 = \<lparr>user = None, params_id = ''d1'', body = ''Flood, updated''\<rparr>"

text \<open>A Mapbox that finds one feature, with no relevance.\<close>

definition times_square :: "string \<Rightarrow> string \<Rightarrow> feature list reply" where
  "times_square credential request =
     Inr (Some [\<lparr>center = (- 73.9855, 40.758), relevance = None\<rparr>])"

definition no_draws :: "nat \<Rightarrow> real" where
  "no_draws i = 0"

section \<open>Properties of the cache-through wrapper\<close>

lemma init_valid_url: "hasValidCredentials_init e \<Longrightarrow> hasValidCredentials e"
  by (simp add: hasValidCredentials_init_def hasValidCredentials_def)

lemma init_real_eq:
  "fst (initializeSupabase e w) = RealClient \<Longrightarrow>
   initializeSupabase e w = (RealClient, w\<lparr>supabase_set := True\<rparr>)"
  by (cases "supabase_set w") (simp_all add: initializeSupabase_def split: if_splits)

lemma init_valid_real:
  "hasValidCredentials_init e \<Longrightarrow> fst (initializeSupabase e w) = RealClient"
  by (simp add: initializeSupabase_def)

lemma init_again: "supabase_set w \<Longrightarrow> fst (initializeSupabase e w) = RealClient"
  by (simp add: initializeSupabase_def)

lemma await_fetcher_eq:
  "await_fetcher f w =
     (fst (f (ext w)),
      logged Fetcher
        (w\<lparr>clock := clock w + int (fst (snd (f (ext w)))), ext := snd (snd (f (ext w)))\<rparr>))"
  by (simp add: await_fetcher_def split: prod.splits)

text \<open>A valid row is returned and the fetcher is left alone.\<close>

lemma getOrSetCache_hit:
  assumes "hasValidCredentials e" "fst (initializeSupabase e w) = RealClient"
    and "\<not> next_fault w" "cache_table w key = Some (v, x)" "clock w < x"
  shows "getOrSetCache e key f ttl w =
         (Inr v, request_sent (CacheSelect key) (w\<lparr>supabase_set := True\<rparr>))"
  using assms(1,3,4,5)
  by (simp add: getOrSetCache_def init_real_eq [OF assms(2)] select_single_def next_fault_def
      request_sent_def logged_def)

text \<open>Otherwise the fetcher runs, and what it returns is written and returned.\<close>

lemma getOrSetCache_miss:
  assumes "hasValidCredentials e" "fst (initializeSupabase e w) = RealClient"
    and "next_fault w \<or> stale key w"
  shows "getOrSetCache e key f ttl w =
         (case await_fetcher f (request_sent (CacheSelect key) (w\<lparr>supabase_set := True\<rparr>)) of
            (Inl thrown, w3) \<Rightarrow> (Inl thrown, w3)
          | (Inr fresh, w3) \<Rightarrow>
              (Inr fresh, snd (upsert RealClient key fresh (clock w3 + ttl * 60 * 60 * 1000) w3)))"
  using assms(1,3)
  by (auto simp add: getOrSetCache_def init_real_eq [OF assms(2)] select_single_def
      next_fault_def request_sent_def logged_def upsert_def stale_def
      split: option.splits prod.splits sum.splits)

text \<open>Without a usable URL the client is not touched.\<close>

lemma getOrSetCache_bypass:
  "\<not> hasValidCredentials e \<Longrightarrow>
   getOrSetCache e key f ttl w = await_fetcher f (snd (initializeSupabase e w))"
  by (simp add: getOrSetCache_def split: prod.splits)

lemma purge_idem: "purge now (purge now t) = purge now t"
  by (rule ext) (simp add: purge_def split: option.splits)

lemma clean_real:
  assumes "hasValidCredentials e" "fst (initializeSupabase e w) = RealClient"
  shows "cleanExpiredCache e w =
     (Inr (), request_sent CacheDelete
        (if next_fault w then w\<lparr>supabase_set := True\<rparr>
         else w\<lparr>supabase_set := True, cache_table := purge (clock w) (cache_table w)\<rparr>))"
  using assms(1)
  by (simp add: cleanExpiredCache_def init_real_eq [OF assms(2)] delete_lt_def next_fault_def)

lemma first_call_evaluated:
  "clock after_first = 5 \<and> ext after_first = 1 \<and>
   fst (getOrSetCache live_env ''geocode:abc'' counting 1 fresh_world) = Inr 0"
  by (simp add: after_first_def getOrSetCache_def initializeSupabase_def
      hasValidCredentials_def hasValidCredentials_init_def truthy_def live_env_def
      fresh_world_def select_single_def next_fault_def request_sent_def logged_def
      await_fetcher_def counting_def upsert_def)

text \<open>
  Claim C1. With the store live (both credentials valid, every request answered), let a
  first call of \<open>getOrSetCache e k p\<close> find no valid row of \<open>k\<close> and let \<open>p\<close> return
  \<open>v\<close>. The row is written with \<open>expires_at\<close> the time of the write plus the TTL. A
  second call at any time before \<open>expires_at\<close> returns \<open>v\<close> without invoking \<open>p\<close>, so the
  two calls invoke \<open>p\<close> exactly once; a call at \<open>expires_at\<close> or later invokes \<open>p\<close> again
  and returns what \<open>p\<close> then gives.
\<close>

theorem ttl_correctness:
  assumes store: "hasValidCredentials_init e" "faults w0 = []"
    and miss: "stale k w0"
    and ok: "fst (p (ext w0)) = Inr v"
    and c1: "getOrSetCache e k p ttl w0 = (r1, w1)"
    and within: "t2 < clock w1 + ttl * 3600000"
    and c2: "getOrSetCache e k p ttl (w1\<lparr>clock := t2\<rparr>) = (r2, w2)"
    and after: "clock w1 + ttl * 3600000 \<le> t3"
    and c3: "getOrSetCache e k p ttl (w2\<lparr>clock := t3\<rparr>) = (r3, w3)"
  shows "r1 = Inr v \<and> r2 = Inr v \<and> ext w2 = ext w1 \<and> r3 = fst (p (ext w2)) \<and>
         cache_table w1 k = Some (v, clock w1 + ttl * 3600000) \<and>
         count_list (new_calls w0 w1) Fetcher = 1 \<and>
         count_list (new_calls w1 w2) Fetcher = 0 \<and>
         count_list (new_calls w2 w3) Fetcher = 1"
proof -
  have url: "hasValidCredentials e" using store(1) by (rule init_valid_url)
  have real0: "fst (initializeSupabase e w0) = RealClient"
    using store(1) by (rule init_valid_real)
  have first: "r1 = Inr v \<and> cache_table w1 k = Some (v, clock w1 + ttl * 3600000) \<and>
      faults w1 = [] \<and> supabase_set w1 \<and>
      calls w1 = calls w0 @ [CacheSelect k, Fetcher, CacheUpsert k]"
    using c1 ok store(2) miss
    by (auto simp: getOrSetCache_miss [OF url real0] await_fetcher_eq upsert_def next_fault_def
        request_sent_def logged_def)
  let ?w1 = "w1\<lparr>clock := t2\<rparr>"
  have real1: "fst (initializeSupabase e ?w1) = RealClient"
    using first by (simp add: init_again)
  have second: "r2 = Inr v \<and> w2 = request_sent (CacheSelect k) (?w1\<lparr>supabase_set := True\<rparr>)"
    using c2 getOrSetCache_hit [OF url real1, of k v "clock w1 + ttl * 3600000" p ttl]
      first within
    by (simp add: next_fault_def)
  let ?w2 = "w2\<lparr>clock := t3\<rparr>"
  have real2: "fst (initializeSupabase e ?w2) = RealClient"
    using first second by (simp add: init_again request_sent_def logged_def)
  have stale2: "stale k ?w2"
    using first second after by (simp add: stale_def request_sent_def logged_def)
  have third: "r3 = fst (p (ext w2)) \<and> count_list (new_calls w2 w3) Fetcher = 1"
    using c3 getOrSetCache_miss [OF url real2, of k p ttl] stale2
    by (auto simp: await_fetcher_eq upsert_def next_fault_def new_calls_def
        request_sent_def logged_def split: sum.splits if_splits)
  show ?thesis
    using first second third
    by (simp add: new_calls_def request_sent_def logged_def)
qed

theorem ttl_correctness_witness:
  "hasValidCredentials_init live_env \<and> stale ''geocode:abc'' fresh_world \<and>
   clock after_first = 5 \<and>
   fst (getOrSetCache live_env ''geocode:abc'' counting 1 fresh_world) = Inr 0 \<and>
   fst (getOrSetCache live_env ''geocode:abc'' counting 1 (after_first\<lparr>clock := 1800000\<rparr>)) = Inr 0 \<and>
   fst (getOrSetCache live_env ''geocode:abc'' counting 1 (after_second\<lparr>clock := 3600005\<rparr>)) = Inr 1 \<and>
   count_list (new_calls fresh_world after_second) Fetcher = 1"
proof -
  let ?k = "''geocode:abc''"
  have h1: "hasValidCredentials_init live_env"
    by (simp add: hasValidCredentials_init_def truthy_def live_env_def)
  have h2: "faults fresh_world = []" by (simp add: fresh_world_def)
  have h3: "stale ?k fresh_world" by (simp add: stale_def fresh_world_def)
  have h4: "fst (counting (ext fresh_world)) = Inr 0"
    by (simp add: counting_def fresh_world_def)
  have h5: "getOrSetCache live_env ?k counting 1 fresh_world =
      (fst (getOrSetCache live_env ?k counting 1 fresh_world), after_first)"
    by (simp add: after_first_def)
  have h6: "1800000 < clock after_first + 1 * 3600000"
    using first_call_evaluated by simp
  have h7: "getOrSetCache live_env ?k counting 1 (after_first\<lparr>clock := 1800000\<rparr>) =
      (fst (getOrSetCache live_env ?k counting 1 (after_first\<lparr>clock := 1800000\<rparr>)), after_second)"
    by (simp add: after_second_def)
  have h8: "clock after_first + 1 * 3600000 \<le> 3600005"
    using first_call_evaluated by simp
  have h9: "getOrSetCache live_env ?k counting 1 (after_second\<lparr>clock := 3600005\<rparr>) =
      (fst (getOrSetCache live_env ?k counting 1 (after_second\<lparr>clock := 3600005\<rparr>)),
       snd (getOrSetCache live_env ?k counting 1 (after_second\<lparr>clock := 3600005\<rparr>)))"
    by simp
  from ttl_correctness [OF h1 h2 h3 h4 h5 h6 h7 h8 h9]
  have concl: "fst (getOrSetCache live_env ?k counting 1 fresh_world) = Inr 0 \<and>
      fst (getOrSetCache live_env ?k counting 1 (after_first\<lparr>clock := 1800000\<rparr>)) = Inr 0 \<and>
      ext after_second = ext after_first \<and>
      fst (getOrSetCache live_env ?k counting 1 (after_second\<lparr>clock := 3600005\<rparr>)) =
        fst (counting (ext after_second)) \<and>
      count_list (new_calls fresh_world after_first) Fetcher = 1 \<and>
      count_list (new_calls after_first after_second) Fetcher = 0"
    by simp
  have whole: "count_list (new_calls fresh_world after_second) Fetcher = 1"
    by (simp add: after_second_def after_first_def getOrSetCache_def initializeSupabase_def
      hasValidCredentials_def hasValidCredentials_init_def truthy_def live_env_def
      fresh_world_def select_single_def next_fault_def request_sent_def logged_def
      await_fetcher_def counting_def upsert_def new_calls_def)
  show ?thesis
    using h1 h3 first_call_evaluated concl whole by (simp add: counting_def)
qed

text \<open>
  Claim C3, as the code has it. When the request that reads the row fails, the code
  reads no error: the answer counts as a miss, the fetcher is invoked and its outcome
  (the value it returns or the error it throws) is the outcome of \<open>getOrSetCache\<close>.
\<close>

theorem get_failure_counts_as_miss:
  assumes "hasValidCredentials e" "fst (initializeSupabase e w) = RealClient" "next_fault w"
  shows "fst (getOrSetCache e key fetcher ttl w) = fst (fetcher (ext w)) \<and>
         take 2 (new_calls w (snd (getOrSetCache e key fetcher ttl w))) =
           [CacheSelect key, Fetcher]"
  using assms(3)
  by (auto simp: getOrSetCache_miss [OF assms(1,2)] await_fetcher_eq upsert_def new_calls_def
        request_sent_def logged_def split: sum.splits if_splits)

theorem get_failure_counts_as_miss_witness:
  "hasValidCredentials live_env \<and>
   fst (initializeSupabase live_env (fresh_world\<lparr>faults := [True]\<rparr>)) = RealClient \<and>
   next_fault (fresh_world\<lparr>faults := [True]\<rparr>) \<and>
   fst (getOrSetCache live_env ''k'' throwing 1 (fresh_world\<lparr>faults := [True]\<rparr>)) =
     Inl (Error ''upstream unavailable'')"
proof -
  let ?w = "fresh_world\<lparr>faults := [True]\<rparr>"
  have h1: "hasValidCredentials live_env"
    by (simp add: hasValidCredentials_def truthy_def live_env_def)
  have h2: "fst (initializeSupabase live_env ?w) = RealClient"
    by (simp add: initializeSupabase_def hasValidCredentials_init_def truthy_def live_env_def
        fresh_world_def)
  have h3: "next_fault ?w" by (simp add: next_fault_def)
  from get_failure_counts_as_miss [OF h1 h2 h3, of "''k''" throwing 1]
  have "fst (getOrSetCache live_env ''k'' throwing 1 ?w) = fst (throwing (ext ?w))"
    by simp
  then show ?thesis using h1 h2 h3 by (simp add: throwing_def)
qed

text \<open>
  The claim as the specification states it fails: with the store configured and the
  read failing, the call returns the fetcher's value and no storage error.
\<close>

theorem get_failure_not_surfaced:
  "next_fault (fresh_world\<lparr>faults := [True]\<rparr>) \<and>
   fst (getOrSetCache live_env ''k'' counting 1 (fresh_world\<lparr>faults := [True]\<rparr>)) = Inr 0 \<and>
   calls (snd (getOrSetCache live_env ''k'' counting 1 (fresh_world\<lparr>faults := [True]\<rparr>))) =
     [CacheSelect ''k'', Fetcher, CacheUpsert ''k'']"
  by (simp add: getOrSetCache_def initializeSupabase_def
      hasValidCredentials_def hasValidCredentials_init_def truthy_def live_env_def
      fresh_world_def select_single_def next_fault_def request_sent_def logged_def
      await_fetcher_def counting_def upsert_def)

text \<open>
  Claim C4, at the input where the code departs from it: the URL is set and the
  service-role key is not. \<open>initializeSupabase\<close> finds the credentials invalid and hands
  out the mock client, but \<open>getOrSetCache\<close> tests the URL alone, goes on to query the
  client, invokes the fetcher, and then throws the TypeError of calling the mock
  client's missing \<open>upsert\<close>: the fetcher's value is lost.
\<close>

theorem url_only_configuration_throws:
  "hasValidCredentials_init url_only_env = False \<and>
   fst (initializeSupabase url_only_env fresh_world) = MockClient \<and>
   getOrSetCache url_only_env ''k'' counting 1 fresh_world =
     (Inl (TypeError ''supabaseClient.from(...).upsert is not a function''),
      fresh_world\<lparr>clock := 5, ext := 1, calls := [CacheSelect ''k'', Fetcher]\<rparr>)"
  by (simp add: getOrSetCache_def initializeSupabase_def
      hasValidCredentials_def hasValidCredentials_init_def truthy_def live_env_def
      url_only_env_def fresh_world_def select_single_def logged_def
      await_fetcher_def counting_def upsert_def)

text \<open>
  Claim C6. When the fetcher is invoked and throws, \<open>getOrSetCache\<close> throws the same
  error, the cache table is as it was, and no \<open>upsert\<close> was called.
\<close>

theorem producer_error_propagates:
  assumes "fst (fetcher (ext w)) = Inl thrown"
    and "getOrSetCache e key fetcher ttl w = (r, w')"
    and "Fetcher \<in> set (new_calls w w')"
  shows "r = Inl thrown \<and> cache_table w' = cache_table w \<and>
         count_list (new_calls w w') (CacheUpsert key) = 0"
  using assms
  by (auto simp: getOrSetCache_def initializeSupabase_def select_single_def
      await_fetcher_def logged_def request_sent_def new_calls_def
      split: if_splits prod.splits option.splits sum.splits supabase_client.splits)

theorem producer_error_propagates_witness:
  "fst (throwing (ext fresh_world)) = Inl (Error ''upstream unavailable'') \<and>
   Fetcher \<in> set (new_calls fresh_world (snd (getOrSetCache live_env ''k'' throwing 1 fresh_world))) \<and>
   fst (getOrSetCache live_env ''k'' throwing 1 fresh_world) = Inl (Error ''upstream unavailable'') \<and>
   cache_table (snd (getOrSetCache live_env ''k'' throwing 1 fresh_world)) = cache_table fresh_world"
proof -
  have h1: "fst (throwing (ext fresh_world)) = Inl (Error ''upstream unavailable'')"
    by (simp add: throwing_def)
  have h2: "getOrSetCache live_env ''k'' throwing 1 fresh_world =
      (fst (getOrSetCache live_env ''k'' throwing 1 fresh_world),
       snd (getOrSetCache live_env ''k'' throwing 1 fresh_world))"
    by simp
  have h3: "Fetcher \<in> set (new_calls fresh_world
      (snd (getOrSetCache live_env ''k'' throwing 1 fresh_world)))"
    by (simp add: getOrSetCache_def initializeSupabase_def
      hasValidCredentials_def hasValidCredentials_init_def truthy_def live_env_def
      fresh_world_def select_single_def next_fault_def request_sent_def logged_def
      await_fetcher_def throwing_def new_calls_def)
  from producer_error_propagates [OF h1 h2 h3] h1 h3 show ?thesis by simp
qed

text \<open>
  Claim C7. With the store configured, let the read give no valid row (it fails, or the
  row is missing or expired), let the fetcher return \<open>v\<close>, and let the write fail. Then
  \<open>getOrSetCache\<close> returns \<open>v\<close>; the table is as it was.
\<close>

theorem put_failure_not_fatal:
  assumes "hasValidCredentials e" "fst (initializeSupabase e w) = RealClient"
    and "faults w = g # True # fs"
    and "g \<or> stale key w"
    and "fst (fetcher (ext w)) = Inr v"
  shows "fst (getOrSetCache e key fetcher ttl w) = Inr v \<and>
         cache_table (snd (getOrSetCache e key fetcher ttl w)) = cache_table w \<and>
         new_calls w (snd (getOrSetCache e key fetcher ttl w)) =
           [CacheSelect key, Fetcher, CacheUpsert key]"
proof -
  have "next_fault w \<or> stale key w" using assms(3,4) by (auto simp: next_fault_def)
  from getOrSetCache_miss [OF assms(1,2) this, of fetcher ttl] assms(3,5)
  show ?thesis
    by (simp add: await_fetcher_eq upsert_def new_calls_def next_fault_def
        request_sent_def logged_def)
qed

theorem put_failure_not_fatal_witness:
  "hasValidCredentials live_env \<and>
   fst (initializeSupabase live_env (fresh_world\<lparr>faults := [False, True]\<rparr>)) = RealClient \<and>
   stale ''k'' (fresh_world\<lparr>faults := [False, True]\<rparr>) \<and>
   fst (getOrSetCache live_env ''k'' counting 1 (fresh_world\<lparr>faults := [False, True]\<rparr>)) = Inr 0 \<and>
   cache_table (snd (getOrSetCache live_env ''k'' counting 1 (fresh_world\<lparr>faults := [False, True]\<rparr>))) ''k''
     = None"
proof -
  let ?w = "fresh_world\<lparr>faults := [False, True]\<rparr>"
  have h1: "hasValidCredentials live_env"
    by (simp add: hasValidCredentials_def truthy_def live_env_def)
  have h2: "fst (initializeSupabase live_env ?w) = RealClient"
    by (simp add: initializeSupabase_def hasValidCredentials_init_def truthy_def live_env_def
        fresh_world_def)
  have h3: "faults ?w = False # True # []" by simp
  have h4: "stale ''k'' ?w" by (simp add: stale_def fresh_world_def)
  have h5: "fst (counting (ext ?w)) = Inr 0" by (simp add: counting_def fresh_world_def)
  have h4': "False \<or> stale ''k'' ?w" using h4 by simp
  from put_failure_not_fatal [where fetcher = counting and ttl = 1, OF h1 h2 h3 h4' h5] h1 h2 h4
  show ?thesis by (simp add: fresh_world_def)
qed

text \<open>
  Claim C8. With the store configured and the delete answered, after
  \<open>cleanExpiredCache\<close> runs at time \<open>clock w\<close>: no row with \<open>expires_at\<close> earlier than
  that time remains; every row with \<open>expires_at\<close> at or after it is unchanged; no row
  appears or changes; and running it again at once leaves the table as it is.
\<close>

theorem sweep_safety:
  assumes url: "hasValidCredentials e" and real: "fst (initializeSupabase e w) = RealClient"
    and up: "\<not> next_fault w"
    and run: "cleanExpiredCache e w = (r, w')"
  shows "r = Inr () \<and>
         (\<forall>k row. cache_table w' k = Some row \<longrightarrow> \<not> snd row < clock w) \<and>
         (\<forall>k row. cache_table w k = Some row \<and> clock w \<le> snd row \<longrightarrow>
                   cache_table w' k = Some row) \<and>
         (\<forall>k. cache_table w' k = None \<or> cache_table w' k = cache_table w k) \<and>
         clock w' = clock w \<and>
         cache_table (snd (cleanExpiredCache e w')) = cache_table w'"
proof -
  have w': "r = Inr () \<and> cache_table w' = purge (clock w) (cache_table w) \<and> clock w' = clock w
      \<and> supabase_set w'"
    using run up by (auto simp add: clean_real [OF url real] request_sent_def logged_def)
  then have again: "fst (initializeSupabase e w') = RealClient"
    by (simp add: init_again)
  have idem: "cache_table (snd (cleanExpiredCache e w')) = cache_table w'"
    using w' by (simp add: clean_real [OF url again] purge_idem request_sent_def logged_def)
  have gone: "\<forall>k row. purge (clock w) (cache_table w) k = Some row \<longrightarrow> \<not> snd row < clock w"
    by (auto simp: purge_def split: option.splits if_splits)
  have kept: "\<forall>k row. cache_table w k = Some row \<and> clock w \<le> snd row \<longrightarrow>
      purge (clock w) (cache_table w) k = Some row"
    by (auto simp: purge_def)
  have frame: "\<forall>k. purge (clock w) (cache_table w) k = None \<or>
      purge (clock w) (cache_table w) k = cache_table w k"
    by (auto simp: purge_def split: option.splits)
  show ?thesis using w' idem gone kept frame by simp
qed

theorem sweep_safety_witness:
  "hasValidCredentials live_env \<and>
   fst (initializeSupabase live_env two_rows) = RealClient \<and> \<not> next_fault two_rows \<and>
   cache_table two_rows ''old'' = Some (1, 50) \<and>
   cache_table (snd (cleanExpiredCache live_env two_rows)) ''old'' = None \<and>
   cache_table (snd (cleanExpiredCache live_env two_rows)) ''new'' = Some (2, 150)"
proof -
  have h1: "hasValidCredentials live_env"
    by (simp add: hasValidCredentials_def truthy_def live_env_def)
  have h2: "fst (initializeSupabase live_env two_rows) = RealClient"
    by (simp add: initializeSupabase_def hasValidCredentials_init_def truthy_def live_env_def
        two_rows_def fresh_world_def)
  have h3: "\<not> next_fault two_rows"
    by (simp add: next_fault_def two_rows_def fresh_world_def)
  have h4: "cleanExpiredCache live_env two_rows =
      (fst (cleanExpiredCache live_env two_rows), snd (cleanExpiredCache live_env two_rows))"
    by simp
  have rows: "cache_table two_rows ''old'' = Some (1, 50) \<and>
      cache_table two_rows ''new'' = Some (2, 150) \<and> clock two_rows = 100"
    by (simp add: two_rows_def fresh_world_def)
  let ?t = "cache_table (snd (cleanExpiredCache live_env two_rows))"
  from sweep_safety [OF h1 h2 h3 h4]
  have gone: "\<forall>k row. ?t k = Some row \<longrightarrow> \<not> snd row < clock two_rows"
    and kept: "\<forall>k row. cache_table two_rows k = Some row \<and> clock two_rows \<le> snd row \<longrightarrow>
        ?t k = Some row"
    and frame: "\<forall>k. ?t k = None \<or> ?t k = cache_table two_rows k"
    by blast+
  have new: "?t ''new'' = Some (2, 150)" using kept rows by simp
  have old: "?t ''old'' = None"
  proof (rule ccontr)
    assume "?t ''old'' \<noteq> None"
    then have "?t ''old'' = Some (1, 50)" using frame rows by metis
    then show False using gone rows by fastforce
  qed
  show ?thesis using h1 h2 h3 rows new old by simp
qed

section \<open>Properties of the external adapters\<close>

lemma twitter_fallback:
  "failed (twitter (interpolated (TWITTER_BEARER e)) q) \<Longrightarrow>
   fetchTwitterPosts e twitter random now q =
     generateMockSocialMediaPosts None (Some ''twitter'') now"
  by (simp add: failed_def fetchTwitterPosts_def split: sum.splits option.splits)

lemma scrape_fallback:
  "failed (page (sourceUrl_of source)) \<Longrightarrow>
   scrapeOfficialUpdates page now source = generateMockOfficialUpdates source now"
  by (simp add: failed_def scrapeOfficialUpdates_def split: sum.splits option.splits)

lemma geocode_gemini_throws:
  "truthy (GEMINI_API_KEY e) \<Longrightarrow> truthy (MAPBOX_TOKEN e) \<Longrightarrow>
   failed (gemini (interpolated (GEMINI_API_KEY e)) text) \<Longrightarrow>
   performGeocoding e gemini mapbox text =
     Inl (Error ''Geocoding failed: Failed to extract location with Gemini API'')"
  by (simp add: failed_def performGeocoding_def extractLocationWithGemini_def
      split: sum.splits option.splits)

lemma geocode_mapbox_throws:
  "truthy (GEMINI_API_KEY e) \<Longrightarrow> truthy (MAPBOX_TOKEN e) \<Longrightarrow>
   gemini (interpolated (GEMINI_API_KEY e)) text = Inr (Some t) \<Longrightarrow>
   no_feature (mapbox (interpolated (MAPBOX_TOKEN e)) (strip_quotes (trim t))) \<Longrightarrow>
   performGeocoding e gemini mapbox text =
     Inl (Error ''Geocoding failed: Failed to geocode with Mapbox API'')"
  by (simp add: no_feature_def performGeocoding_def extractLocationWithGemini_def
      geocodeWithMapbox_def split: sum.splits option.splits list.splits)

lemma geocode_live_result:
  "truthy (GEMINI_API_KEY e) \<Longrightarrow> truthy (MAPBOX_TOKEN e) \<Longrightarrow>
   gemini (interpolated (GEMINI_API_KEY e)) text = Inr (Some t) \<Longrightarrow>
   mapbox (interpolated (MAPBOX_TOKEN e)) (strip_quotes (trim t)) = Inr (Some (f # fs)) \<Longrightarrow>
   performGeocoding e gemini mapbox text =
     Inr \<lparr>lat = snd (center f), lon = fst (center f),
          confidence = or_number (Some (or_number (relevance f) 0.8)) 0.8,
          location_name = strip_quotes (trim t)\<rparr>"
  by (simp add: performGeocoding_def extractLocationWithGemini_def geocodeWithMapbox_def)

lemma geocode_missing_key:
  "\<not> (truthy (GEMINI_API_KEY e) \<and> truthy (MAPBOX_TOKEN e)) \<Longrightarrow>
   performGeocoding e gemini mapbox text = Inr mock_geocode"
  by (auto simp add: performGeocoding_def)

lemma live_env_keys: "truthy (GEMINI_API_KEY live_env) \<and> truthy (MAPBOX_TOKEN live_env)"
  by (simp add: truthy_def live_env_def)

text \<open>
  Claim C2, as the code has it. When the request or the reading of the response fails,
  the Twitter fetch and the official-updates scrape return their mock results. With
  both API keys configured, \<open>performGeocoding\<close> does not: a failure of the Gemini call
  or of the Mapbox call (no feature included) is thrown to the caller as
  \<^verbatim>\<open>Error('Geocoding failed: ...')\<close>, and when both calls succeed the result is built
  from the extracted name and the first feature. Its mock result is what it returns
  when an API key is missing, whatever the network would answer.
\<close>

theorem upstream_failure_handling:
  "(failed (twitter (interpolated (TWITTER_BEARER e)) q) \<longrightarrow>
      fetchTwitterPosts e twitter random now q =
        generateMockSocialMediaPosts None (Some ''twitter'') now) \<and>
   (failed (page (sourceUrl_of source)) \<longrightarrow>
      scrapeOfficialUpdates page now source = generateMockOfficialUpdates source now) \<and>
   (truthy (GEMINI_API_KEY e) \<and> truthy (MAPBOX_TOKEN e) \<and>
    failed (gemini (interpolated (GEMINI_API_KEY e)) input) \<longrightarrow>
      performGeocoding e gemini mapbox input =
        Inl (Error ''Geocoding failed: Failed to extract location with Gemini API'')) \<and>
   (truthy (GEMINI_API_KEY e) \<and> truthy (MAPBOX_TOKEN e) \<and>
    gemini (interpolated (GEMINI_API_KEY e)) input = Inr (Some t) \<and>
    no_feature (mapbox (interpolated (MAPBOX_TOKEN e)) (strip_quotes (trim t))) \<longrightarrow>
      performGeocoding e gemini mapbox input =
        Inl (Error ''Geocoding failed: Failed to geocode with Mapbox API'')) \<and>
   (truthy (GEMINI_API_KEY e) \<and> truthy (MAPBOX_TOKEN e) \<and>
    gemini (interpolated (GEMINI_API_KEY e)) input = Inr (Some t) \<and>
    mapbox (interpolated (MAPBOX_TOKEN e)) (strip_quotes (trim t)) = Inr (Some (f # fs)) \<longrightarrow>
      performGeocoding e gemini mapbox input =
        Inr \<lparr>lat = snd (center f), lon = fst (center f),
             confidence = or_number (Some (or_number (relevance f) 0.8)) 0.8,
             location_name = strip_quotes (trim t)\<rparr>) \<and>
   (\<not> (truthy (GEMINI_API_KEY e) \<and> truthy (MAPBOX_TOKEN e)) \<longrightarrow>
      performGeocoding e gemini mapbox input = Inr mock_geocode)"
  using twitter_fallback [of twitter e q random now] scrape_fallback [of page source now]
    geocode_gemini_throws [of e gemini input mapbox]
    geocode_mapbox_throws [of e gemini input t mapbox]
    geocode_live_result [of e gemini input t mapbox f fs]
    geocode_missing_key [of e gemini mapbox input]
  by blast

theorem upstream_failure_handling_witness:
  "fetchTwitterPosts live_env down no_draws 1000 ''flood'' =
     generateMockSocialMediaPosts None (Some ''twitter'') 1000 \<and>
   scrapeOfficialUpdates page_down 1000 (Some ''fema'') =
     generateMockOfficialUpdates (Some ''fema'') 1000 \<and>
   performGeocoding live_env down down ''Flood in Manhattan'' =
     Inl (Error ''Geocoding failed: Failed to extract location with Gemini API'') \<and>
   performGeocoding live_env manhattan down ''Flood in Manhattan'' =
     Inl (Error ''Geocoding failed: Failed to geocode with Mapbox API'') \<and>
   performGeocoding live_env manhattan times_square ''Flood in Manhattan'' =
     Inr \<lparr>lat = 40.758, lon = - 73.9855, confidence = 0.8, location_name = ''Manhattan''\<rparr> \<and>
   performGeocoding (live_env\<lparr>MAPBOX_TOKEN := None\<rparr>) manhattan times_square
     ''Flood in Manhattan'' = Inr mock_geocode"
proof -
  have nokey: "\<not> (truthy (GEMINI_API_KEY (live_env\<lparr>MAPBOX_TOKEN := None\<rparr>)) \<and>
      truthy (MAPBOX_TOKEN (live_env\<lparr>MAPBOX_TOKEN := None\<rparr>)))"
    by (simp add: truthy_def)
  have name: "strip_quotes (trim '' Manhattan '') = ''Manhattan''"
    by (simp add: strip_quotes_def trim_def is_space_def is_quote_def)
  have found: "times_square (interpolated (MAPBOX_TOKEN live_env))
      (strip_quotes (trim '' Manhattan '')) =
      Inr (Some [\<lparr>center = (- 73.9855, 40.758), relevance = None\<rparr>])"
    by (simp add: times_square_def)
  have t: "failed (down (interpolated (TWITTER_BEARER live_env)) ''flood'' :: tweet list reply)"
    by (simp add: failed_def down_def)
  have p: "failed (page_down (sourceUrl_of (Some ''fema'')))"
    by (simp add: failed_def page_down_def)
  have g: "failed (down (interpolated (GEMINI_API_KEY live_env)) ''Flood in Manhattan'' :: string reply)"
    by (simp add: failed_def down_def)
  have m: "manhattan (interpolated (GEMINI_API_KEY live_env)) ''Flood in Manhattan'' =
      Inr (Some '' Manhattan '')"
    by (simp add: manhattan_def)
  have f: "no_feature (down (interpolated (MAPBOX_TOKEN live_env))
      (strip_quotes (trim '' Manhattan '')) :: feature list reply)"
    by (simp add: no_feature_def down_def)
  have fallbacks: "fetchTwitterPosts live_env down no_draws 1000 ''flood'' =
        generateMockSocialMediaPosts None (Some ''twitter'') 1000 \<and>
      scrapeOfficialUpdates page_down 1000 (Some ''fema'') =
        generateMockOfficialUpdates (Some ''fema'') 1000 \<and>
      performGeocoding live_env down down ''Flood in Manhattan'' =
        Inl (Error ''Geocoding failed: Failed to extract location with Gemini API'')"
    using upstream_failure_handling
      [where twitter = down and e = live_env and q = "''flood''" and random = no_draws
         and now = 1000 and page = page_down and source = "Some ''fema''" and gemini = down
         and mapbox = down and t = "'' Manhattan ''"
         and input = "''Flood in Manhattan''"]
      t p g live_env_keys
    by simp
  have thrown: "performGeocoding live_env manhattan down ''Flood in Manhattan'' =
      Inl (Error ''Geocoding failed: Failed to geocode with Mapbox API'')"
    using upstream_failure_handling
      [where e = live_env and gemini = manhattan and mapbox = down
         and t = "'' Manhattan ''" and input = "''Flood in Manhattan''"]
      m f live_env_keys
    by simp
  have live: "performGeocoding live_env manhattan times_square ''Flood in Manhattan'' =
      Inr \<lparr>lat = 40.758, lon = - 73.9855, confidence = 0.8, location_name = ''Manhattan''\<rparr>"
    using upstream_failure_handling
      [where e = live_env and gemini = manhattan and mapbox = times_square
         and t = "'' Manhattan ''" and input = "''Flood in Manhattan''"
         and f = "\<lparr>center = (- 73.9855, 40.758), relevance = None\<rparr>" and fs = "[]"]
      m found name live_env_keys
    by (simp add: or_number_def)
  have mock: "performGeocoding (live_env\<lparr>MAPBOX_TOKEN := None\<rparr>) manhattan times_square
      ''Flood in Manhattan'' = Inr mock_geocode"
    using upstream_failure_handling
      [where e = "live_env\<lparr>MAPBOX_TOKEN := None\<rparr>" and gemini = manhattan
         and mapbox = times_square and input = "''Flood in Manhattan''"]
      nokey
    by blast
  show ?thesis using fallbacks thrown live mock by simp
qed

text \<open>
  The claim as the specification states it fails for geocoding: with both keys
  configured and the Gemini request refused, the caller gets the error and no mock
  result.
\<close>

theorem geocoding_failure_is_thrown:
  "truthy (GEMINI_API_KEY live_env) \<and> truthy (MAPBOX_TOKEN live_env) \<and>
   performGeocoding live_env down down ''Flood in Manhattan'' =
     Inl (Error ''Geocoding failed: Failed to extract location with Gemini API'') \<and>
   performGeocoding live_env down down ''Flood in Manhattan'' \<noteq> Inr mock_geocode"
  by (simp add: performGeocoding_def extractLocationWithGemini_def down_def truthy_def
      live_env_def interpolated_def)

text \<open>
  Claim C5. For every source: when the page is fetched and the loop over the matched
  elements extracts no update, \<open>scrapeOfficialUpdates\<close> returns the mock official
  updates, a list of exactly three entries (each a record of id, source, title,
  content, timestamp, priority and url, with the fixed titles) and so never the empty
  list.
\<close>

theorem zero_extracted_gives_mock:
  assumes "page (sourceUrl_of source) = Inr (Some elements)"
    and "extract_updates source (sourceUrl_of source) now elements = []"
  shows "scrapeOfficialUpdates page now source = generateMockOfficialUpdates source now \<and>
         length (scrapeOfficialUpdates page now source) = 3 \<and>
         scrapeOfficialUpdates page now source \<noteq> [] \<and>
         map u_title (scrapeOfficialUpdates page now source) =
           [''Evacuation Order Issued'', ''Severe Weather Warning Extended'',
            ''Emergency Response Team Deployed'']"
  using assms
  by (simp add: scrapeOfficialUpdates_def generateMockOfficialUpdates_def)

theorem zero_extracted_gives_mock_witness:
  "extract_updates (Some ''weather'') (sourceUrl_of (Some ''weather'')) 1000
     [\<lparr>heading_text = ''  '', paragraph_text = ''Shelters are open.'', time_text = ''''\<rparr>] = [] \<and>
   length (scrapeOfficialUpdates blank_page 1000 (Some ''weather'')) = 3 \<and>
   map u_id (scrapeOfficialUpdates blank_page 1000 (Some ''weather'')) =
     [''update_1000_1'', ''update_1000_2'', ''update_1000_3''] \<and>
   map u_source (scrapeOfficialUpdates blank_page 1000 (Some ''weather'')) =
     [''weather'', ''weather'', ''weather'']"
proof -
  have h1: "blank_page (sourceUrl_of (Some ''weather'')) =
      Inr (Some [\<lparr>heading_text = ''  '', paragraph_text = ''Shelters are open.'', time_text = ''''\<rparr>])"
    by (simp add: blank_page_def)
  have h2: "extract_updates (Some ''weather'') (sourceUrl_of (Some ''weather'')) 1000
      [\<lparr>heading_text = ''  '', paragraph_text = ''Shelters are open.'', time_text = ''''\<rparr>] = []"
    by (simp add: extract_updates_def extract_update_def enumerate_eq_zip List.map_filter_def
        trim_def is_space_def)
  have d: "show_int 1000 = ''1000''"
    by (simp add: show_int_def digits.simps)
  from zero_extracted_gives_mock [where page = blank_page and now = 1000, OF h1 h2] h2 d show ?thesis
    by (simp add: generateMockOfficialUpdates_def or_else_def)
qed

section \<open>Properties of the resources router\<close>

lemma literal_is_one_segment:
  "match_segments [Literal l] segs = Some b \<Longrightarrow> l \<noteq> [] \<Longrightarrow> \<exists>s. segs = [s] \<and> s \<noteq> []"
proof (cases segs)
  case Nil
  assume "match_segments [Literal l] segs = Some b"
  with Nil show ?thesis by simp
next
  case (Cons s ss)
  assume m: "match_segments [Literal l] segs = Some b" and l: "l \<noteq> []"
  from m Cons have eq: "map lower l = map lower s" and rest: "match_segments [] ss = Some b"
    by (auto split: if_splits)
  from rest have "ss = []" by (cases ss) auto
  moreover from eq l have "s \<noteq> []" by auto
  ultimately show ?thesis using Cons by simp
qed

lemma literal_then_parameter:
  assumes "match_path [Literal l] path = Some b" and "l \<noteq> []"
  shows "match_path [Parameter n] path \<noteq> None"
proof -
  from assms(1) obtain segs where split: "split_slash path = [] # segs"
    by (auto simp: match_path_def split: list.splits)
  from assms(1) split
  consider (exact) "match_segments [Literal l] segs = Some b"
    | (slash) "segs \<noteq> []" "last segs = []" "match_segments [Literal l] (butlast segs) = Some b"
    by (auto simp: match_path_def split: option.splits if_splits)
  then show ?thesis
  proof cases
    case exact
    from literal_is_one_segment [OF exact assms(2)] obtain s where "segs = [s]" "s \<noteq> []"
      by blast
    then show ?thesis using split by (simp add: match_path_def)
  next
    case slash
    from literal_is_one_segment [OF slash(3) assms(2)] obtain s
      where s: "butlast segs = [s]" "s \<noteq> []"
      by blast
    then show ?thesis using split slash(1,2)
      by (simp add: match_path_def split: option.splits)
  qed
qed

text \<open>
  Claim C9. The router registers \<^verbatim>\<open>GET /:id\<close> before \<^verbatim>\<open>GET /nearby\<close> and
  \<^verbatim>\<open>GET /types\<close>. A GET of \<^verbatim>\<open>/nearby\<close> or of \<^verbatim>\<open>/types\<close> runs the handler of \<^verbatim>\<open>/:id\<close> with
  \<open>id\<close> bound to that word, and no request of any method and path is dispatched to
  the handlers of \<^verbatim>\<open>/nearby\<close> and \<^verbatim>\<open>/types\<close>.
\<close>

theorem nearby_and_types_shadowed:
  "dispatch resources_router GET ''/nearby'' = Some (GetResource, [(''id'', ''nearby'')]) \<and>
   dispatch resources_router GET ''/types'' = Some (GetResource, [(''id'', ''types'')]) \<and>
   (\<forall>m path params.
      dispatch resources_router m path \<noteq> Some (NearbyResources, params) \<and>
      dispatch resources_router m path \<noteq> Some (ResourceTypes, params))"
proof -
  have nearby: "dispatch resources_router GET ''/nearby'' = Some (GetResource, [(''id'', ''nearby'')])"
    by (simp add: resources_router_def match_path_def)
  have types: "dispatch resources_router GET ''/types'' = Some (GetResource, [(''id'', ''types'')])"
    by (simp add: resources_router_def match_path_def)
  have dead: "dispatch resources_router m path \<noteq> Some (NearbyResources, params) \<and>
      dispatch resources_router m path \<noteq> Some (ResourceTypes, params)" for m path params
  proof (cases "match_path [Parameter ''id''] path")
    case (Some b)
    then show ?thesis
      by (cases m) (simp_all add: resources_router_def split: option.splits)
  next
    case None
    have "match_path [Literal ''nearby''] path = None"
      using literal_then_parameter [of "''nearby''" path _ "''id''"] None
      by (cases "match_path [Literal ''nearby''] path") auto
    moreover have "match_path [Literal ''types''] path = None"
      using literal_then_parameter [of "''types''" path _ "''id''"] None
      by (cases "match_path [Literal ''types''] path") auto
    ultimately show ?thesis using None
      by (cases m) (simp_all add: resources_router_def split: option.splits)
  qed
  show ?thesis using nearby types dead by blast
qed

theorem nearby_and_types_shadowed_witness:
  "dispatch resources_router GET ''/nearby/'' \<noteq> Some (NearbyResources, []) \<and>
   dispatch resources_router GET ''/nearby'' = Some (GetResource, [(''id'', ''nearby'')])"
  using nearby_and_types_shadowed by blast

section \<open>Properties of the mock authentication\<close>

lemma first_half_is_admin:
  "0 \<le> r \<Longrightarrow> r < 1 / 2 \<Longrightarrow>
   user (authMiddleware r req) = Some \<lparr>user_id = ''u1'', role = ''admin''\<rparr>"
proof -
  assume "0 \<le> r" "r < 1 / 2"
  then have "\<lfloor>r * 2\<rfloor> = 0" by (simp add: floor_eq_iff)
  then show ?thesis by (simp add: authMiddleware_def mockUsers_def element_at_def)
qed

lemma second_half_is_contributor:
  "1 / 2 \<le> r \<Longrightarrow> r < 1 \<Longrightarrow>
   user (authMiddleware r req) = Some \<lparr>user_id = ''u2'', role = ''contributor''\<rparr>"
proof -
  assume "1 / 2 \<le> r" "r < 1"
  then have "\<lfloor>r * 2\<rfloor> = 1" by (simp add: floor_eq_iff)
  then show ?thesis by (simp add: authMiddleware_def mockUsers_def element_at_def)
qed

lemma auth_keeps_request:
  "params_id (authMiddleware r req) = params_id req \<and> body (authMiddleware r req) = body req"
  by (simp add: authMiddleware_def)

lemma admin_may_write:
  assumes "user req = Some \<lparr>user_id = ''u1'', role = ''admin''\<rparr>"
    and "disasters d (params_id req) = Some existing" and "db_faults d = []"
  shows "(\<exists>data. fst (put_disaster req d) = Json 200 data) \<and>
         fst (delete_disaster req d) = NoContent 204"
  using assms
  by (simp add: put_disaster_def delete_disaster_def db_fault_def db_sent_def forbidden_def
      Let_def)

lemma contributor_may_not:
  assumes "user req = Some \<lparr>user_id = ''u2'', role = ''contributor''\<rparr>"
    and "disasters d (params_id req) = Some existing" and "db_faults d = []"
    and "owner_id existing \<noteq> ''u2''"
  shows "fst (put_disaster req d) = JsonError 403 ''Insufficient permissions'' \<and>
         fst (delete_disaster req d) = JsonError 403 ''Insufficient permissions''"
  using assms
  by (simp add: put_disaster_def delete_disaster_def db_fault_def db_sent_def forbidden_def)

text \<open>
  Claim C10. For every draw of \<^verbatim>\<open>Math.random()\<close> (a number in [0, 1)) the user that
  \<open>authMiddleware\<close> attaches is \<^verbatim>\<open>{id: 'u1', role: 'admin'}\<close> or
  \<^verbatim>\<open>{id: 'u2', role: 'contributor'}\<close>, and it is the same whatever the request holds.
  So the ownership check is not a function of the request: for a disaster that \<open>u2\<close>
  does not own, the same request on the same table succeeds under one draw (200 for
  PUT, 204 for DELETE) and is refused with 403 under another.
\<close>

theorem mock_user_decides_outcome:
  "(0 \<le> r \<and> r < 1 \<longrightarrow>
      user (authMiddleware r req) = Some \<lparr>user_id = ''u1'', role = ''admin''\<rparr> \<or>
      user (authMiddleware r req) = Some \<lparr>user_id = ''u2'', role = ''contributor''\<rparr>) \<and>
   user (authMiddleware r req) = user (authMiddleware r req') \<and>
   (0 \<le> r1 \<and> r1 < 1 / 2 \<and> 1 / 2 \<le> r2 \<and> r2 < 1 \<and>
    disasters d (params_id req) = Some existing \<and> owner_id existing \<noteq> ''u2'' \<and>
    db_faults d = [] \<longrightarrow>
      (\<exists>data. fst (put_disaster (authMiddleware r1 req) d) = Json 200 data) \<and>
      fst (put_disaster (authMiddleware r2 req) d) = JsonError 403 ''Insufficient permissions'' \<and>
      fst (delete_disaster (authMiddleware r1 req) d) = NoContent 204 \<and>
      fst (delete_disaster (authMiddleware r2 req) d) =
        JsonError 403 ''Insufficient permissions'')"
proof -
  have either: "user (authMiddleware r req) = Some \<lparr>user_id = ''u1'', role = ''admin''\<rparr> \<or>
      user (authMiddleware r req) = Some \<lparr>user_id = ''u2'', role = ''contributor''\<rparr>"
    if "0 \<le> r" "r < 1"
  proof (cases "r < 1 / 2")
    case True
    then show ?thesis using that first_half_is_admin by blast
  next
    case False
    then show ?thesis using that second_half_is_contributor [of r req] by simp
  qed
  have same: "user (authMiddleware r req) = user (authMiddleware r req')"
    by (simp add: authMiddleware_def)
  have differ: "(\<exists>data. fst (put_disaster (authMiddleware r1 req) d) = Json 200 data) \<and>
      fst (put_disaster (authMiddleware r2 req) d) = JsonError 403 ''Insufficient permissions'' \<and>
      fst (delete_disaster (authMiddleware r1 req) d) = NoContent 204 \<and>
      fst (delete_disaster (authMiddleware r2 req) d) = JsonError 403 ''Insufficient permissions''"
    if "0 \<le> r1" "r1 < 1 / 2" "1 / 2 \<le> r2" "r2 < 1"
      "disasters d (params_id req) = Some existing" "owner_id existing \<noteq> ''u2''"
      "db_faults d = []"
    using admin_may_write [of "authMiddleware r1 req" d existing]
      contributor_may_not [of "authMiddleware r2 req" d existing]
      first_half_is_admin [of r1 req] second_half_is_contributor [of r2 req] that
    by (simp add: auth_keeps_request)
  show ?thesis using either same differ by blast
qed

theorem mock_user_decides_outcome_witness:
  "disasters owned_by_u1 (params_id edit_d1) =
     Some \<lparr>owner_id = ''u1'', columns = ''Flood'', audit_trail = [Created ''u1'' 0]\<rparr> \<and>
   fst (delete_disaster (authMiddleware (1 / 4) edit_d1) owned_by_u1) = NoContent 204 \<and>
   fst (delete_disaster (authMiddleware (3 / 4) edit_d1) owned_by_u1) =
     JsonError 403 ''Insufficient permissions'' \<and>
   fst (put_disaster (authMiddleware (3 / 4) edit_d1) owned_by_u1) =
     JsonError 403 ''Insufficient permissions''"
proof -
  have h: "disasters owned_by_u1 (params_id edit_d1) =
      Some \<lparr>owner_id = ''u1'', columns = ''Flood'', audit_trail = [Created ''u1'' 0]\<rparr>"
    "db_faults owned_by_u1 = []"
    by (simp_all add: owned_by_u1_def edit_d1_def)
  show ?thesis
    using mock_user_decides_outcome
      [of "1 / 4" edit_d1 edit_d1 "1 / 4" "3 / 4" owned_by_u1
          "\<lparr>owner_id = ''u1'', columns = ''Flood'', audit_trail = [Created ''u1'' 0]\<rparr>"] h
    by simp
qed

end
